theory Spec2Isabelle
  imports Complex_Main "HOL-Library.Sublist"
begin

section \<open>Data model\<close>

text \<open>
  The development follows \<^verbatim>\<open>examples/language_modelling/language_modelling_seq2seq.py\<close>:
  the class \<^verbatim>\<open>Seq2SeqLanguageModel\<close> with its methods \<^verbatim>\<open>tensor2text\<close>,
  \<^verbatim>\<open>text2tensor\<close>, \<^verbatim>\<open>fit\<close> and \<^verbatim>\<open>generate\<close>.

  Exceptions are values. \<open>KeyError\<close> (a failed dictionary subscript) and \<open>IndexError\<close>
  are the two subclasses of Python's \<^verbatim>\<open>LookupError\<close>; \<open>ValueError\<close> is what the
  specification calls \<^verbatim>\<open>InvalidArgument\<close>.
\<close>

datatype error =
  KeyError | IndexError | ValueError | AssertionError | TypeError
  | ZeroDivisionError | RuntimeError

fun is_LookupError :: "error \<Rightarrow> bool" where
  "is_LookupError KeyError = True"
| "is_LookupError IndexError = True"
| "is_LookupError e = False"

text \<open>
  A symbol is a Python \<^verbatim>\<open>str\<close>: a single character when a text is iterated character by
  character, a longer string such as \<^verbatim>\<open><END>\<close> for a token. A two-dimensional integer
  tensor is the list of its rows.
\<close>

type_synonym symbol = string

definition chars :: "string \<Rightarrow> symbol list" where
  "chars s = map (\<lambda>c. [c]) s"

text \<open>
  The receiver \<^verbatim>\<open>self\<close>. The two vocabularies are dictionaries. The three decoding
  strategies are methods of the base class \<^verbatim>\<open>Seq2Seq\<close>, which is not part of the file;
  they are fields of the record, each returning what it returns or the exception it raises.
  For temperature sampling the field \<open>sample_loop\<close> is the decoding loop that draws the
  symbols; the method \<^verbatim>\<open>sample\<close> around it is defined below.

  Modelled from the spec: the shapes of their results.
  \<^verbatim>\<open>greedy_search(source_batch, max_steps) -> (sequences, scores)\<close>,
  \<^verbatim>\<open>sample(source_batch, max_steps, temperature) -> sequences\<close> and
  \<^verbatim>\<open>beam_search(source_batch, max_steps, candidates, beam_width) -> (sequences, scores)\<close>
  with sequences of shape (batch, candidates, length). The diagnostic block of \<^verbatim>\<open>fit\<close>
  uses them in the same way: \<^verbatim>\<open>greedy[0][:, 1:]\<close> and \<^verbatim>\<open>greedy[1]\<close>,
  \<^verbatim>\<open>self.sample(X[:5], 10)[:, 1:]\<close>, \<^verbatim>\<open>beam[0][:, :, 1:]\<close> and \<^verbatim>\<open>beam[1]\<close>.
\<close>

record seq2seq =
  in_vocabulary :: "symbol \<rightharpoonup> int"
  out_vocabulary :: "int \<rightharpoonup> symbol"
  greedy_search :: "int list list \<Rightarrow> int \<Rightarrow> error + (int list list \<times> real list)"
  sample_loop :: "int list list \<Rightarrow> int \<Rightarrow> real \<Rightarrow> error + int list list"
  beam_search ::
    "int list list \<Rightarrow> int \<Rightarrow> int \<Rightarrow> int \<Rightarrow> error + (int list list list \<times> real list list)"

section \<open>Tokenizer and detokenizer\<close>

text \<open>A list comprehension whose body may raise: the first exception ends it.\<close>

fun comprehension :: "('a \<Rightarrow> error + 'b) \<Rightarrow> 'a list \<Rightarrow> error + 'b list" where
  "comprehension f [] = Inr []"
| "comprehension f (x # xs) =
     (case f x of
        Inl e \<Rightarrow> Inl e
      | Inr y \<Rightarrow> (case comprehension f xs of Inl e \<Rightarrow> Inl e | Inr ys \<Rightarrow> Inr (y # ys)))"

text \<open>The subscript \<^verbatim>\<open>d[k]\<close> of a dictionary.\<close>

definition subscript :: "('k \<rightharpoonup> 'v) \<Rightarrow> 'k \<Rightarrow> error + 'v" where
  "subscript d k = (case d k of None \<Rightarrow> Inl KeyError | Some v \<Rightarrow> Inr v)"

text \<open>\<^verbatim>\<open>separator.join(symbols)\<close>.\<close>

fun join :: "string \<Rightarrow> string list \<Rightarrow> string" where
  "join sep [] = []"
| "join sep [x] = x"
| "join sep (x # y # ys) = x @ sep @ join sep (y # ys)"

definition newline :: char where
  "newline = CHR 0x0A"

text \<open>
  \<^verbatim>\<open>re.sub(end + ".*", end, s)\<close>. The first argument is a regular expression, so the
  characters of \<^verbatim>\<open>end\<close> are read as one: a dot in it matches any character but the
  newline, every other character of a \<open>supported_pattern\<close> matches itself. The other
  operators of regular expressions (\<open>regex_operators\<close>) are outside the model, and every
  general theorem about the substitution assumes a \<open>supported_pattern\<close> or, stronger, a
  \<open>literal_pattern\<close>, which has no dot either and so matches exactly its own text. The
  default \<^verbatim>\<open><END>\<close> is literal.

  Python replaces the non-overlapping matches from left to right. A match starts at the
  leftmost position where \<^verbatim>\<open>end\<close> matches and, since \<^verbatim>\<open>.\<close> does not match the
  newline, runs to the next newline or to the end of the string; it is replaced by the text
  of \<^verbatim>\<open>end\<close>, and the scan goes on behind it. With an empty \<^verbatim>\<open>end\<close> the pattern is
  \<^verbatim>\<open>.*\<close>: every run of characters between newlines is replaced by the empty string
  and the newlines stay.
\<close>

definition regex_operators :: string where
  "regex_operators = ''^$*+?{}[]|()'' @ [CHR 0x5C]"

definition supported_pattern :: "string \<Rightarrow> bool" where
  "supported_pattern e = list_all (\<lambda>c. c \<notin> set regex_operators) e"

definition literal_pattern :: "string \<Rightarrow> bool" where
  "literal_pattern e = (supported_pattern e \<and> CHR ''.'' \<notin> set e)"

fun match_here :: "string \<Rightarrow> string \<Rightarrow> bool" where
  "match_here [] s = True"
| "match_here (p # ps) [] = False"
| "match_here (p # ps) (c # cs) =
     ((if p = CHR ''.'' then c \<noteq> newline else p = c) \<and> match_here ps cs)"

function scan_sub :: "string \<Rightarrow> string \<Rightarrow> string" where
  "scan_sub e [] = []"
| "scan_sub e (c # cs) =
     (if e = [] then (if c = newline then c # scan_sub e cs else scan_sub e cs)
      else if match_here e (c # cs)
        then e @ scan_sub e (dropWhile (\<lambda>x. x \<noteq> newline) (drop (length e) (c # cs)))
      else c # scan_sub e cs)"
  by pat_completeness auto
termination
proof (relation "measure (\<lambda>(e, s). length s)")
  fix e :: string and c :: char and cs :: string
  assume "e \<noteq> []"
  then have "0 < length e" by simp
  have "length (dropWhile (\<lambda>x. x \<noteq> newline) (drop (length e) (c # cs)))
          \<le> length (drop (length e) (c # cs))"
    by (rule length_dropWhile_le)
  also have "\<dots> < length (c # cs)"
    using \<open>0 < length e\<close> by simp
  finally show "((e, dropWhile (\<lambda>x. x \<noteq> newline) (drop (length e) (c # cs))), (e, c # cs))
                  \<in> measure (\<lambda>(e, s). length s)"
    by simp
qed auto

definition re_sub_end_dotstar :: "string \<Rightarrow> string \<Rightarrow> string" where
  "re_sub_end_dotstar e s = scan_sub e s"

text \<open>
  The specification's reading of the same step, in its own words: the string is
  ``truncated at the first occurrence of the end symbol'', the marker kept and everything
  behind it dropped. \<open>find_sub\<close> is Python's \<^verbatim>\<open>str.find\<close>.
\<close>

fun find_sub :: "string \<Rightarrow> string \<Rightarrow> nat option" where
  "find_sub e [] = (if e = [] then Some 0 else None)"
| "find_sub e (c # cs) =
     (if prefix e (c # cs) then Some 0 else map_option Suc (find_sub e cs))"

definition truncate_at_first :: "string \<Rightarrow> string \<Rightarrow> string" where
  "truncate_at_first e s =
     (case find_sub e s of None \<Rightarrow> s | Some k \<Rightarrow> take (k + length e) s)"

text \<open>
  \<^verbatim>\<open>tensor2text(self, X, separator = "", vocabulary = None, end = "<END>")\<close>; \<^verbatim>\<open>None\<close>
  for \<^verbatim>\<open>vocabulary\<close> selects \<^verbatim>\<open>self.out_vocabulary\<close>.
\<close>

definition tensor2text ::
  "seq2seq \<Rightarrow> int list list \<Rightarrow> string \<Rightarrow> (int \<rightharpoonup> symbol) option \<Rightarrow> string
     \<Rightarrow> error + string list" where
  "tensor2text self X separator vocabulary end_marker =
     (let vocabulary = (case vocabulary of None \<Rightarrow> out_vocabulary self | Some v \<Rightarrow> v)
      in comprehension
           (\<lambda>l. case comprehension (subscript vocabulary) l of
                   Inl e \<Rightarrow> Inl e
                 | Inr symbols \<Rightarrow> Inr (re_sub_end_dotstar end_marker (join separator symbols)))
           X)"

text \<open>
  \<^verbatim>\<open>torch.nn.utils.rnn.pad_sequence(sequences, batch_first = True)\<close>: every sequence is
  padded on the right with 0 to the length of the longest one. The library refuses an
  empty list of sequences (``received an empty list of sequences'', a \<^verbatim>\<open>RuntimeError\<close>;
  its older releases fail in \<^verbatim>\<open>sequences[0]\<close> with \<^verbatim>\<open>IndexError\<close>).
\<close>

definition pad_sequence :: "int list list \<Rightarrow> error + int list list" where
  "pad_sequence sequences =
     (if sequences = [] then Inl RuntimeError
      else let max_len = foldr max (map length sequences) 0
           in Inr (map (\<lambda>s. s @ replicate (max_len - length s) 0) sequences))"

definition text2tensor :: "seq2seq \<Rightarrow> symbol list list \<Rightarrow> error + int list list" where
  "text2tensor self strings =
     (case comprehension (\<lambda>l. comprehension (subscript (in_vocabulary self)) l) strings of
        Inl e \<Rightarrow> Inl e
      | Inr sequences \<Rightarrow> pad_sequence sequences)"

text \<open>
  The round trip of the specification, \<^verbatim>\<open>sequence_to_text(text_to_sequence([S]))\<close>, with
  the default separator, vocabulary and end marker of \<^verbatim>\<open>tensor2text\<close>.
\<close>

definition round_trip :: "seq2seq \<Rightarrow> symbol list \<Rightarrow> error + string list" where
  "round_trip self S =
     (case text2tensor self [S] of
        Inl e \<Rightarrow> Inl e
      | Inr X \<Rightarrow> tensor2text self X [] None ''<END>'')"

section \<open>The generation facade\<close>

text \<open>
  What \<^verbatim>\<open>Y\<close> is bound to in \<^verbatim>\<open>generate\<close>: a tensor, or the pair that
  \<^verbatim>\<open>greedy_search\<close> returns. The slice \<^verbatim>\<open>Y[:, 1:]\<close> drops the first column of a
  tensor; a Python tuple does not accept a tuple of slices as its index and raises
  \<^verbatim>\<open>TypeError\<close>.
\<close>

datatype decoded = Tensor "int list list" | Tuple "int list list" "real list"

fun drop_first_column :: "decoded \<Rightarrow> error + int list list" where
  "drop_first_column (Tensor Y) = Inr (map tl Y)"
| "drop_first_column (Tuple Y scores) = Inl TypeError"

text \<open>\<^verbatim>\<open>Y[:, 0, :]\<close>: the first hypothesis of every batch element.\<close>

definition first_hypothesis :: "int list list list \<Rightarrow> error + int list list" where
  "first_hypothesis Y =
     comprehension (\<lambda>hs. case hs of [] \<Rightarrow> Inl IndexError | h # rest \<Rightarrow> Inr h) Y"

text \<open>\<^verbatim>\<open>torch.cat((X, Y), axis = 1)\<close>: both tensors must have the same number of rows.\<close>

definition cat_columns :: "int list list \<Rightarrow> int list list \<Rightarrow> error + int list list" where
  "cat_columns X Y =
     (if length X = length Y then Inr (map2 (@) X Y) else Inl RuntimeError)"

text \<open>The last line of \<^verbatim>\<open>generate\<close>: \<^verbatim>\<open>self.tensor2text(torch.cat((X, Y[:, 1:]), axis = 1))\<close>.\<close>

definition generate_return :: "seq2seq \<Rightarrow> int list list \<Rightarrow> decoded \<Rightarrow> error + string list" where
  "generate_return self X Y =
     (case drop_first_column Y of
        Inl e \<Rightarrow> Inl e
      | Inr continuation \<Rightarrow>
          (case cat_columns X continuation of
             Inl e \<Rightarrow> Inl e
           | Inr Z \<Rightarrow> tensor2text self Z [] None ''<END>''))"

text \<open>
  The runs of a decoding loop, each with its arguments: what ``model invocation'' and
  ``sampling is performed'' refer to.
\<close>

datatype call =
  GreedySearch "int list list" int
  | Sample "int list list" int real
  | BeamSearch "int list list" int int int

text \<open>
  Modelled from the spec: the method \<^verbatim>\<open>sample\<close> of the base class \<^verbatim>\<open>Seq2Seq\<close>, which is
  not part of the file. Section 4.3: ``\<^verbatim>\<open>temperature\<close> must be a positive real number --
  fails with \<^verbatim>\<open>InvalidArgument\<close> otherwise''; section 7: ``non-positive
  \<^verbatim>\<open>temperature\<close> [...] fails fast before any model invocation''. So a temperature
  that is not positive is refused with \<^verbatim>\<open>ValueError\<close> and the loop does not run; a
  positive one is handed to the loop. The method returns the runs of the loop next to its
  result.
\<close>

definition sample ::
  "seq2seq \<Rightarrow> int list list \<Rightarrow> int \<Rightarrow> real \<Rightarrow> call list \<times> (error + int list list)" where
  "sample self X max_predictions temperature =
     (if temperature \<le> 0 then ([], Inl ValueError)
      else ([Sample X max_predictions temperature],
            sample_loop self X max_predictions temperature))"

text \<open>
  \<^verbatim>\<open>generate\<close> returns the runs of the decoding loops it caused, in order, next to its
  result, so that ``before any model invocation'' can be stated. \<^verbatim>\<open>None\<close> is a
  possible value of \<^verbatim>\<open>temperature\<close>, \<^verbatim>\<open>candidates\<close> and \<^verbatim>\<open>beam_width\<close>, which the
  assertions test for.
\<close>

definition generate ::
  "seq2seq \<Rightarrow> symbol list list \<Rightarrow> int \<Rightarrow> string \<Rightarrow> real option \<Rightarrow> int option \<Rightarrow> int option
     \<Rightarrow> call list \<times> (error + string list)" where
  "generate self input_text max_predictions method temperature candidates beam_width =
     (case text2tensor self input_text of
        Inl e \<Rightarrow> ([], Inl e)
      | Inr X \<Rightarrow>
          if method = ''greedy_search'' then
            ([GreedySearch X max_predictions],
             case greedy_search self X max_predictions of
               Inl e \<Rightarrow> Inl e
             | Inr (Y, scores) \<Rightarrow> generate_return self X (Tuple Y scores))
          else if method = ''sample'' then
            (case temperature of
               None \<Rightarrow> ([], Inl AssertionError)
             | Some t \<Rightarrow>
                 (case sample self X max_predictions t of
                    (calls, Inl e) \<Rightarrow> (calls, Inl e)
                  | (calls, Inr Y) \<Rightarrow> (calls, generate_return self X (Tensor Y))))
          else if method = ''beam_search'' then
            (case candidates of
               None \<Rightarrow> ([], Inl AssertionError)
             | Some c \<Rightarrow>
                 (case beam_width of
                    None \<Rightarrow> ([], Inl AssertionError)
                  | Some b \<Rightarrow>
                      ([BeamSearch X max_predictions c b],
                       case beam_search self X max_predictions c b of
                         Inl e \<Rightarrow> Inl e
                       | Inr (Y, log_probabilities) \<Rightarrow>
                           (case first_hypothesis Y of
                              Inl e \<Rightarrow> Inl e
                            | Inr Y0 \<Rightarrow> generate_return self X (Tensor Y0)))))
          else ([], Inl ValueError))"

section \<open>The training loop\<close>

text \<open>
  What \<^verbatim>\<open>fit\<close> takes from the numerical library and from the model subclass, as fields
  of a record: \<open>'p\<close> are the model's parameters, \<open>'o\<close> is the optimizer, \<open>'l\<close> the
  scores of one position over the vocabulary, \<open>'t\<close> a loss tensor.
  \<^item> \<open>Adam\<close> is \<^verbatim>\<open>torch.optim.Adam(self.parameters(), lr)\<close>;
  \<^item> \<open>forward\<close> is \<^verbatim>\<open>self.forward(x, y)\<close>, one score vector for every position of
    every row (the transposition that follows it only moves the vocabulary axis);
  \<^item> \<open>nll_mean\<close> is the arithmetic of the cross-entropy criterion, applied to the pairs
    of a score vector and a target index that the criterion does not ignore;
  \<^item> \<open>item\<close> is \<^verbatim>\<open>loss.item()\<close>;
  \<^item> \<open>backward_step\<close> is \<^verbatim>\<open>optimizer.zero_grad(); loss.backward(); optimizer.step()\<close>;
  \<^item> \<open>randperm\<close> is the permutation the shuffling loader draws for an epoch;
  \<^item> \<open>diagnostics\<close> is the block under \<^verbatim>\<open>verbose > 2\<close>, which prints decodes of the
    first five examples and changes no parameter: its lines, or the exception it raises.
\<close>

record ('p, 'o, 'l, 't) trainer =
  Adam :: "'p \<Rightarrow> real \<Rightarrow> error + 'o"
  forward :: "'p \<Rightarrow> int list list \<Rightarrow> int list list \<Rightarrow> error + 'l list list"
  nll_mean :: "('l \<times> int) list \<Rightarrow> error + 't"
  item :: "'t \<Rightarrow> real"
  backward_step :: "'o \<Rightarrow> 'p \<Rightarrow> 't \<Rightarrow> error + ('o \<times> 'p)"
  randperm :: "int \<Rightarrow> nat \<Rightarrow> nat list"
  diagnostics :: "'p \<Rightarrow> error + string list"

text \<open>
  \<^verbatim>\<open>nn.CrossEntropyLoss(ignore_index = ...)\<close> applied to scores and targets of the same
  shape: the positions whose target is \<^verbatim>\<open>ignore_index\<close> are left out, the others go to
  the arithmetic.
\<close>

definition CrossEntropyLoss ::
  "(('l \<times> int) list \<Rightarrow> error + 't) \<Rightarrow> int \<Rightarrow> 'l list list \<Rightarrow> int list list \<Rightarrow> error + 't" where
  "CrossEntropyLoss arithmetic ignore_index input target =
     (if map length input = map length target
      then arithmetic (filter (\<lambda>(l, t). t \<noteq> ignore_index) (concat (map2 zip input target)))
      else Inl ValueError)"

text \<open>
  Lines 38 and 39: \<^verbatim>\<open>predictions[:, :, :-1]\<close> drops the last position of every row of
  scores, \<^verbatim>\<open>y[:, 1:]\<close> the first position of every row of targets.
\<close>

definition batch_loss ::
  "('p, 'o, 'l, 't) trainer \<Rightarrow> 'p \<Rightarrow> int list list \<Rightarrow> int list list \<Rightarrow> error + 't" where
  "batch_loss T p x y =
     (case forward T p x y of
        Inl e \<Rightarrow> Inl e
      | Inr predictions \<Rightarrow> CrossEntropyLoss (nll_mean T) 0 (map butlast predictions) (map tl y))"

text \<open>The body of the inner loop, lines 38 to 43.\<close>

definition train_batch ::
  "('p, 'o, 'l, 't) trainer \<Rightarrow> 'o \<times> 'p \<Rightarrow> int list list \<times> int list list
     \<Rightarrow> error + (('o \<times> 'p) \<times> real)" where
  "train_batch T s b =
     (case batch_loss T (snd s) (fst b) (snd b) of
        Inl e \<Rightarrow> Inl e
      | Inr loss \<Rightarrow>
          (case backward_step T (fst s) (snd s) loss of
             Inl e \<Rightarrow> Inl e
           | Inr s' \<Rightarrow> Inr (s', item T loss)))"

fun train_batches ::
  "('p, 'o, 'l, 't) trainer \<Rightarrow> 'o \<times> 'p \<Rightarrow> (int list list \<times> int list list) list \<Rightarrow> real list
     \<Rightarrow> error + (('o \<times> 'p) \<times> real list)" where
  "train_batches T s [] losses = Inr (s, losses)"
| "train_batches T s (b # bs) losses =
     (case train_batch T s b of
        Inl e \<Rightarrow> Inl e
      | Inr (s', l) \<Rightarrow> train_batches T s' bs (losses @ [l]))"

text \<open>
  \<^verbatim>\<open>tud.TensorDataset(X, Y)\<close> asserts that both tensors have the same number of rows.
  \<^verbatim>\<open>tud.DataLoader(dataset, batch_size, shuffle = True)\<close> first builds its shuffling
  sampler, \<^verbatim>\<open>RandomSampler(dataset)\<close>, which refuses a dataset without examples
  (``num_samples should be a positive integer value'', a \<^verbatim>\<open>ValueError\<close>), and then
  refuses a batch size that is not positive; iterated, it draws a permutation of the
  indices and yields the examples in that order in mini-batches of \<^verbatim>\<open>batch_size\<close>, the
  last one possibly smaller. An index that a permutation of \<open>[0..<n]\<close> cannot hold is
  never read.
\<close>

definition RandomSampler :: "nat \<Rightarrow> error option" where
  "RandomSampler num_samples = (if num_samples = 0 then Some ValueError else None)"

definition TensorDataset :: "'a list \<Rightarrow> 'b list \<Rightarrow> error + ('a \<times> 'b) list" where
  "TensorDataset X Y = (if length X = length Y then Inr (zip X Y) else Inl AssertionError)"

fun batched :: "nat \<Rightarrow> 'a list \<Rightarrow> 'a list list" where
  "batched n [] = []"
| "batched n (x # xs) =
     (if n = 0 then [] else take n (x # xs) # batched n (drop n (x # xs)))"

definition data_loader_iter ::
  "nat list \<Rightarrow> nat \<Rightarrow> ('a \<times> 'b) list \<Rightarrow> ('a list \<times> 'b list) list" where
  "data_loader_iter perm batch_size dataset =
     map (\<lambda>b. (map fst b, map snd b))
       (batched batch_size
          (map (\<lambda>i. dataset ! i) (filter (\<lambda>i. i < length dataset) perm)))"

text \<open>What \<^verbatim>\<open>fit\<close> prints: the report of an epoch, and the lines of the diagnostics.\<close>

datatype printed = EpochLoss int real | Diagnostic string

text \<open>
  One pass of the outer loop, lines 36 to 62, for epoch \<open>e\<close>: its result and what it has
  printed. The report divides by \<^verbatim>\<open>len(losses)\<close>.
\<close>

definition run_epoch ::
  "('p, 'o, 'l, 't) trainer \<Rightarrow> nat \<Rightarrow> (int list \<times> int list) list \<Rightarrow> int \<Rightarrow> 'o \<times> 'p \<Rightarrow> int
     \<Rightarrow> (error + ('o \<times> 'p)) \<times> printed list" where
  "run_epoch T batch_size dataset verbose s e =
     (case train_batches T s
             (data_loader_iter (randperm T e (length dataset)) batch_size dataset) [] of
        Inl err \<Rightarrow> (Inl err, [])
      | Inr (s', losses) \<Rightarrow>
          if length losses = 0 then (Inl ZeroDivisionError, [])
          else
            let report = [EpochLoss e (sum_list losses / real (length losses))]
            in if verbose > 2
               then (case diagnostics T (snd s') of
                       Inl err \<Rightarrow> (Inl err, report)
                     | Inr lines \<Rightarrow> (Inr s', report @ map Diagnostic lines))
               else (Inr s', report))"

fun run_epochs ::
  "('p, 'o, 'l, 't) trainer \<Rightarrow> nat \<Rightarrow> (int list \<times> int list) list \<Rightarrow> int \<Rightarrow> 'o \<times> 'p
     \<Rightarrow> int list \<Rightarrow> (error + ('o \<times> 'p)) \<times> printed list" where
  "run_epochs T batch_size dataset verbose s [] = (Inr s, [])"
| "run_epochs T batch_size dataset verbose s (e # es) =
     (case run_epoch T batch_size dataset verbose s e of
        (Inl err, out) \<Rightarrow> (Inl err, out)
      | (Inr s', out) \<Rightarrow>
          (case run_epochs T batch_size dataset verbose s' es of
             (r, out') \<Rightarrow> (r, out @ out')))"

text \<open>
  \<^verbatim>\<open>fit\<close>. The files that \<^verbatim>\<open>torch.save\<close> writes are a map from paths to saved
  parameters; \<^verbatim>\<open>fit\<close> takes the files as they are before the call and returns how the
  call ended (the exception, or the trained parameters), what it printed, and the files as
  they are afterwards. \<^verbatim>\<open>range(1, epochs + 1)\<close> is \<open>[1..epochs]\<close>. The write of
  \<^verbatim>\<open>torch.save\<close> itself is taken to succeed.
\<close>

definition fit ::
  "('p, 'o, 'l, 't) trainer \<Rightarrow> 'p \<Rightarrow> int list list \<Rightarrow> int list list \<Rightarrow> int \<Rightarrow> int \<Rightarrow> real \<Rightarrow> int
     \<Rightarrow> string option \<Rightarrow> (string \<rightharpoonup> 'p)
     \<Rightarrow> (error + 'p) \<times> printed list \<times> (string \<rightharpoonup> 'p)" where
  "fit T p X Y epochs batch_size lr verbose save_path files =
     (case Adam T p lr of
        Inl err \<Rightarrow> (Inl err, [], files)
      | Inr optimizer \<Rightarrow>
          (case TensorDataset X Y of
             Inl err \<Rightarrow> (Inl err, [], files)
           | Inr dataset \<Rightarrow>
               (case RandomSampler (length dataset) of
                  Some err \<Rightarrow> (Inl err, [], files)
                | None \<Rightarrow>
                    if batch_size \<le> 0 then (Inl ValueError, [], files)
                    else
                      (case run_epochs T (nat batch_size) dataset verbose (optimizer, p)
                              [1..epochs] of
                         (Inl err, out) \<Rightarrow> (Inl err, out, files)
                       | (Inr s, out) \<Rightarrow>
                           (case save_path of
                              None \<Rightarrow> (Inr (snd s), out, files)
                            | Some path \<Rightarrow> (Inr (snd s), out, files(path \<mapsto> snd s)))))))"

section \<open>A small instance\<close>

text \<open>
  A vocabulary with the symbols of the specification's end-to-end scenario and the
  characters the examples need, and decoding strategies that return fixed sequences
  starting with the start symbol 4.
\<close>

definition toy :: seq2seq where
  "toy =
     \<lparr> in_vocabulary = map_of
         [(''<PAD>'', 0), (''a'', 1), (''b'', 2), (''<END>'', 3), (''<START>'', 4),
          ([newline], 5), (''<'', 6), (''E'', 7), (''N'', 8), (''D'', 9), (''>'', 10),
          (''.'', 11)],
       out_vocabulary = map_of
         [(0, ''<PAD>''), (1, ''a''), (2, ''b''), (3, ''<END>''), (4, ''<START>''),
          (5, [newline]), (6, ''<''), (7, ''E''), (8, ''N''), (9, ''D''), (10, ''>''),
          (11, ''.'')],
       greedy_search = (\<lambda>X n. Inr (map (\<lambda>r. [4, 1, 3]) X, map (\<lambda>r. 0) X)),
       sample_loop = (\<lambda>X n t. Inr (map (\<lambda>r. [4, 2, 3]) X)),
       beam_search =
         (\<lambda>X n c b. Inr (map (\<lambda>r. [[4, 1, 3], [4, 2, 3]]) X, map (\<lambda>r. [0, - 1]) X)) \<rparr>"

text \<open>
  A trainer for the examples: parameters are a step counter, the score vector of position
  \<open>t\<close> is \<open>t\<close> itself, the loss tensor is the list of the pairs that count, the
  optimizer fails at its third step.
\<close>

definition toy_trainer :: "(int, unit, int, (int \<times> int) list) trainer" where
  "toy_trainer =
     \<lparr> Adam = (\<lambda>p lr. Inr ()),
       forward = (\<lambda>p x y. Inr (map (\<lambda>row. map int [0..<length row]) y)),
       nll_mean = (\<lambda>pairs. Inr pairs),
       item = (\<lambda>loss. real (length loss)),
       backward_step = (\<lambda>opt p loss. if p < 2 then Inr (opt, p + 1) else Inl RuntimeError),
       randperm = (\<lambda>e n. rev [0..<n]),
       diagnostics = (\<lambda>p. Inr []) \<rparr>"

section \<open>Lemmas about the tokenizer and the detokenizer\<close>

lemma comprehension_Inr_iff:
  "comprehension f xs = Inr ys \<longleftrightarrow> list_all2 (\<lambda>x y. f x = Inr y) xs ys"
proof (induction xs arbitrary: ys)
  case Nil
  then show ?case by auto
next
  case (Cons x xs)
  show ?case
  proof (cases "f x")
    case (Inl e)
    then show ?thesis by (auto simp: list_all2_Cons1)
  next
    case (Inr y)
    then show ?thesis using Cons
      by (cases "comprehension f xs") (auto simp: list_all2_Cons1)
  qed
qed

lemma comprehension_map:
  "list_all2 (\<lambda>x y. f x = Inr y) xs ys \<Longrightarrow> comprehension f xs = Inr ys"
  by (simp add: comprehension_Inr_iff)

lemma comprehension_subscript_present:
  "list_all (\<lambda>k. d k \<noteq> None) ks \<Longrightarrow> comprehension (subscript d) ks = Inr (map (\<lambda>k. the (d k)) ks)"
  by (induction ks) (auto simp: subscript_def)

lemma comprehension_subscript_absent:
  "\<not> list_all (\<lambda>k. d k \<noteq> None) ks \<Longrightarrow> comprehension (subscript d) ks = Inl KeyError"
  by (induction ks) (auto simp: subscript_def split: sum.splits option.splits)

lemma comprehension_rows_present:
  "list_all (list_all (\<lambda>k. d k \<noteq> None)) rows \<Longrightarrow>
     comprehension (\<lambda>l. comprehension (subscript d) l) rows = Inr (map (map (\<lambda>k. the (d k))) rows)"
  by (induction rows) (auto simp: comprehension_subscript_present)

lemma comprehension_rows_absent:
  "\<not> list_all (list_all (\<lambda>k. d k \<noteq> None)) rows \<Longrightarrow>
     comprehension (\<lambda>l. comprehension (subscript d) l) rows = Inl KeyError"
proof (induction rows)
  case Nil
  then show ?case by simp
next
  case (Cons r rows)
  show ?case
  proof (cases "list_all (\<lambda>k. d k \<noteq> None) r")
    case True
    then show ?thesis using Cons by (simp add: comprehension_subscript_present)
  next
    case False
    then show ?thesis by (simp add: comprehension_subscript_absent)
  qed
qed

lemma join_empty_separator: "join [] symbols = concat symbols"
  by (induction "[]::string" symbols rule: join.induct) auto

lemma match_here_literal: "CHR ''.'' \<notin> set e \<Longrightarrow> match_here e s = prefix e s"
  by (induction e s rule: match_here.induct) auto

lemma prefix_take_iff: "prefix e s \<longleftrightarrow> take (length e) s = e"
  by (metis append_eq_conv_conj prefix_def append_take_drop_id)

lemma take_scan_sub:
  "CHR ''.'' \<notin> set e \<Longrightarrow> take (length e) (scan_sub e s) = take (length e) s"
proof (induction e s rule: scan_sub.induct)
  case (1 e)
  then show ?case by simp
next
  case (2 e c cs)
  note lit = \<open>CHR ''.'' \<notin> set e\<close>
  show ?case
  proof (cases "e = []")
    case True
    then show ?thesis by simp
  next
    case ne: False
    show ?thesis
    proof (cases "match_here e (c # cs)")
      case True
      then show ?thesis using ne lit by (auto simp: match_here_literal prefix_def)
    next
      case False
      from 2(4)[OF ne False lit]
      have "take (length e - 1) (take (length e) (scan_sub e cs))
              = take (length e - 1) (take (length e) cs)"
        by simp
      then have "take (length e - 1) (scan_sub e cs) = take (length e - 1) cs"
        by (simp add: min_def)
      then show ?thesis using ne False by (cases e) auto
    qed
  qed
qed

lemma scan_sub_no_new_match:
  assumes "CHR ''.'' \<notin> set e" "e \<noteq> []" "\<not> match_here e (c # cs)"
  shows "\<not> match_here e (c # scan_sub e cs)"
proof -
  have "take (length e) (scan_sub e cs) = take (length e) cs"
    using assms(1) by (rule take_scan_sub)
  then have "take (length e - 1) (take (length e) (scan_sub e cs))
          = take (length e - 1) (take (length e) cs)"
    by (rule arg_cong)
  then have "take (length e - 1) (scan_sub e cs) = take (length e - 1) cs"
    by (simp add: min_def)
  then have "take (length e) (c # scan_sub e cs) = take (length e) (c # cs)"
    using assms(2) by (cases e) auto
  then show ?thesis
    using assms(1,3) by (simp add: match_here_literal prefix_take_iff)
qed

lemma scan_sub_starts_newline:
  assumes "CHR ''.'' \<notin> set e" "r = [] \<or> hd r = newline"
  shows "scan_sub e r = [] \<or> hd (scan_sub e r) = newline"
proof (cases r)
  case Nil
  then show ?thesis by simp
next
  case (Cons c cs)
  then have c: "c = newline" using assms(2) by simp
  show ?thesis
  proof (cases "e \<noteq> [] \<and> match_here e (c # cs)")
    case True
    then obtain a as where "e = a # as" by (cases e) auto
    then show ?thesis using True Cons c assms(1) by (auto split: if_splits)
  next
    case False
    then show ?thesis using Cons c by auto
  qed
qed

lemma dropWhile_starts_newline:
  "dropWhile (\<lambda>x. x \<noteq> newline) s = [] \<or> hd (dropWhile (\<lambda>x. x \<noteq> newline) s) = newline"
  by (induction s) auto

lemma scan_sub_after_match:
  assumes "CHR ''.'' \<notin> set e" "e \<noteq> []" "r = [] \<or> hd r = newline"
  shows "scan_sub e (e @ r) = e @ scan_sub e r"
proof -
  obtain a s where eq: "e @ r = a # s" using assms(2) by (cases e) auto
  have d: "dropWhile (\<lambda>x. x \<noteq> newline) r = r"
    using assms(3) by (cases r) auto
  have "match_here e (e @ r)"
    using assms(1) by (simp add: match_here_literal)
  then have m: "match_here e (a # s)" by (simp only: eq)
  have r: "drop (length e) (a # s) = r"
    using eq by (metis append_eq_conv_conj)
  have "scan_sub e (a # s)
          = e @ scan_sub e (dropWhile (\<lambda>x. x \<noteq> newline) (drop (length e) (a # s)))"
    using assms(2) m by simp
  then show ?thesis by (simp only: eq r d)
qed

lemma scan_sub_idem:
  "CHR ''.'' \<notin> set e \<Longrightarrow> scan_sub e (scan_sub e s) = scan_sub e s"
proof (induction e s rule: scan_sub.induct)
  case (1 e)
  then show ?case by simp
next
  case (2 e c cs)
  note lit = \<open>CHR ''.'' \<notin> set e\<close>
  show ?case
  proof (cases "e = []")
    case True
    then show ?thesis using 2(1,2) lit by simp
  next
    case ne: False
    show ?thesis
    proof (cases "match_here e (c # cs)")
      case True
      let ?r = "dropWhile (\<lambda>x. x \<noteq> newline) (drop (length e) (c # cs))"
      have s: "scan_sub e (c # cs) = e @ scan_sub e ?r" using ne True by simp
      have "scan_sub e ?r = [] \<or> hd (scan_sub e ?r) = newline"
        using lit dropWhile_starts_newline by (rule scan_sub_starts_newline)
      with lit ne have "scan_sub e (e @ scan_sub e ?r) = e @ scan_sub e (scan_sub e ?r)"
        by (rule scan_sub_after_match)
      then show ?thesis using 2(3)[OF ne True lit] s by simp
    next
      case False
      have "\<not> match_here e (c # scan_sub e cs)"
        using lit ne False by (rule scan_sub_no_new_match)
      then show ?thesis using ne False 2(4)[OF ne False lit] by simp
    qed
  qed
qed

lemma find_sub_empty: "find_sub [] s = Some 0"
  by (cases s) auto

lemma scan_sub_no_match:
  "CHR ''.'' \<notin> set e \<Longrightarrow> find_sub e s = None \<Longrightarrow> scan_sub e s = s"
  by (induction s) (auto simp: match_here_literal split: if_splits)

lemma scan_sub_one_line:
  assumes "CHR ''.'' \<notin> set e" "newline \<notin> set s"
  shows "scan_sub e s = truncate_at_first e s"
  using assms(2)
proof (induction s)
  case Nil
  then show ?case by (simp add: truncate_at_first_def)
next
  case (Cons c cs)
  show ?case
  proof (cases "e = []")
    case True
    then show ?thesis using Cons by (auto simp: truncate_at_first_def find_sub_empty)
  next
    case ne: False
    show ?thesis
    proof (cases "prefix e (c # cs)")
      case True
      have "\<forall>x\<in>set (drop (length e) (c # cs)). x \<noteq> newline"
        using Cons.prems by (metis in_set_dropD)
      then have d: "dropWhile (\<lambda>x. x \<noteq> newline) (drop (length e) (c # cs)) = []"
        by simp
      have m: "match_here e (c # cs)"
        using True assms(1) by (simp add: match_here_literal)
      have "scan_sub e (c # cs)
              = e @ scan_sub e (dropWhile (\<lambda>x. x \<noteq> newline) (drop (length e) (c # cs)))"
        using ne m by simp
      then have "scan_sub e (c # cs) = e"
        by (simp only: d scan_sub.simps(1) append_Nil2)
      moreover have "truncate_at_first e (c # cs) = e"
        using True by (simp add: truncate_at_first_def prefix_take_iff)
      ultimately show ?thesis by simp
    next
      case False
      then show ?thesis using ne Cons assms(1)
        by (auto simp: truncate_at_first_def match_here_literal split: option.splits)
    qed
  qed
qed

lemma find_sub_Some:
  "find_sub e s = Some k \<Longrightarrow> take (k + length e) s = take k s @ e"
proof (induction s arbitrary: k)
  case Nil
  then show ?case by (simp split: if_splits)
next
  case (Cons c cs)
  show ?case
  proof (cases "prefix e (c # cs)")
    case True
    then show ?thesis using Cons.prems by (simp add: prefix_take_iff)
  next
    case False
    then obtain j where j: "find_sub e cs = Some j" "k = Suc j"
      using Cons.prems by auto
    then show ?thesis using Cons.IH[OF j(1)] by simp
  qed
qed

lemma literal_pattern_no_dot: "literal_pattern e \<Longrightarrow> CHR ''.'' \<notin> set e"
  by (simp add: literal_pattern_def)

lemma tensor2text_rows:
  assumes "comprehension (\<lambda>l. comprehension (subscript (case vocabulary of None \<Rightarrow> out_vocabulary self | Some v \<Rightarrow> v)) l) X = Inr rows"
  shows "tensor2text self X separator vocabulary end_marker
           = Inr (map (\<lambda>symbols. re_sub_end_dotstar end_marker (join separator symbols)) rows)"
proof -
  let ?V = "case vocabulary of None \<Rightarrow> out_vocabulary self | Some v \<Rightarrow> v"
  let ?g = "\<lambda>symbols. re_sub_end_dotstar end_marker (join separator symbols)"
  have "list_all2 (\<lambda>l r. comprehension (subscript ?V) l = Inr r) X rows"
    using assms by (simp add: comprehension_Inr_iff)
  then have "list_all2 (\<lambda>l t. (case comprehension (subscript ?V) l of Inl e \<Rightarrow> Inl e
                                 | Inr symbols \<Rightarrow> Inr (?g symbols)) = Inr t) X (map ?g rows)"
    by (induction rule: list_all2_induct) auto
  then show ?thesis
    unfolding tensor2text_def Let_def by (rule comprehension_map)
qed

lemma literal_END: "literal_pattern ''<END>''"
  by (simp add: literal_pattern_def supported_pattern_def regex_operators_def)

lemma re_sub_idempotent:
  "literal_pattern e \<Longrightarrow>
     re_sub_end_dotstar e (re_sub_end_dotstar e s) = re_sub_end_dotstar e s"
  by (simp add: re_sub_end_dotstar_def scan_sub_idem literal_pattern_no_dot)

lemma pad_sequence_single: "pad_sequence [ids] = Inr [ids]"
  by (simp add: pad_sequence_def)

lemma round_trip_scan:
  assumes "list_all (\<lambda>sym. in_vocabulary self sym \<noteq> None
              \<and> out_vocabulary self (the (in_vocabulary self sym)) = Some sym) S"
  shows "round_trip self S = Inr [re_sub_end_dotstar ''<END>'' (concat S)]"
proof -
  let ?ids = "map (\<lambda>c. the (in_vocabulary self c)) S"
  have "list_all (\<lambda>c. in_vocabulary self c \<noteq> None) S"
    using assms by (simp add: list_all_iff)
  then have enc: "text2tensor self [S] = Inr [?ids]"
    by (simp add: text2tensor_def comprehension_subscript_present pad_sequence_single)
  have "list_all2 (\<lambda>i sym. subscript (out_vocabulary self) i = Inr sym) ?ids S"
    using assms by (induction S) (auto simp: subscript_def)
  then have "comprehension (subscript (out_vocabulary self)) ?ids = Inr S"
    by (rule comprehension_map)
  then have "comprehension (\<lambda>l. comprehension
               (subscript (case None of None \<Rightarrow> out_vocabulary self | Some v \<Rightarrow> v)) l) [?ids]
             = Inr [S]"
    by simp
  then have "tensor2text self [?ids] [] None ''<END>''
               = Inr (map (\<lambda>symbols. re_sub_end_dotstar ''<END>'' (join [] symbols)) [S])"
    by (rule tensor2text_rows)
  then show ?thesis
    by (simp add: round_trip_def enc join_empty_separator)
qed

lemma round_trip_one_line:
  assumes "list_all (\<lambda>sym. in_vocabulary self sym \<noteq> None
              \<and> out_vocabulary self (the (in_vocabulary self sym)) = Some sym) S"
    and "newline \<notin> set (concat S)"
  shows "round_trip self S = Inr [truncate_at_first ''<END>'' (concat S)]"
  using round_trip_scan[OF assms(1)] scan_sub_one_line[OF literal_pattern_no_dot[OF literal_END] assms(2)]
  by (simp add: re_sub_end_dotstar_def)

section \<open>Claims about the detokenizer\<close>

text \<open>
  Claim C2, at an input where the code departs from it. The claim: \<^verbatim>\<open>tensor2text\<close> joins
  the symbols of a row and truncates the string at the first occurrence of the end symbol,
  dropping everything behind it, repeated end markers included. The row below decodes to
  \<^verbatim>\<open>a<END>b\<close>, a newline and \<^verbatim>\<open>a<END>b\<close>. The substitution ends its first match
  at the newline and goes on behind it, so the result keeps the newline and the second
  line up to its own end marker; truncated at the first end marker the string would be
  \<^verbatim>\<open>a<END>\<close>. What does hold for every string and every literal end marker is the
  second half of the claim, that a second application changes nothing
  (\<open>re_sub_idempotent\<close>).
\<close>

theorem tensor2text_stops_at_newline:
  "tensor2text toy [[1, 3, 2, 5, 1, 3, 2]] [] None ''<END>''
     = Inr [''a<END>'' @ [newline] @ ''a<END>'']
   \<and> truncate_at_first ''<END>''
       (join [] [''a'', ''<END>'', ''b'', [newline], ''a'', ''<END>'', ''b'']) = ''a<END>''"
  by (simp add: tensor2text_def toy_def subscript_def re_sub_end_dotstar_def newline_def
      truncate_at_first_def)

text \<open>
  Claim C10, as amended: for every batch whose rows all decode, every end marker that is
  a literal pattern and every row whose joined string contains the end marker and no
  newline, \<^verbatim>\<open>tensor2text\<close> returns, and its text for that row is the joined string up to
  and including the first occurrence of the end marker; the marker is the end of the text.
\<close>

theorem tensor2text_keeps_first_end_marker:
  assumes "literal_pattern end_marker"
    and "comprehension (\<lambda>l. comprehension
           (subscript (case vocabulary of None \<Rightarrow> out_vocabulary self | Some v \<Rightarrow> v)) l) X
         = Inr rows"
    and "i < length X"
    and "find_sub end_marker (join separator (rows ! i)) = Some k"
    and "newline \<notin> set (join separator (rows ! i))"
  shows "\<exists>texts. tensor2text self X separator vocabulary end_marker = Inr texts
           \<and> length texts = length X
           \<and> texts ! i = take (k + length end_marker) (join separator (rows ! i))
           \<and> texts ! i = take k (join separator (rows ! i)) @ end_marker"
proof -
  let ?g = "\<lambda>symbols. re_sub_end_dotstar end_marker (join separator symbols)"
  have len: "length rows = length X"
    using assms(2) by (simp add: comprehension_Inr_iff list_all2_lengthD)
  have t: "tensor2text self X separator vocabulary end_marker = Inr (map ?g rows)"
    using assms(2) by (rule tensor2text_rows)
  have "?g (rows ! i) = truncate_at_first end_marker (join separator (rows ! i))"
    using assms(1,5) by (simp add: re_sub_end_dotstar_def scan_sub_one_line literal_pattern_no_dot)
  also have "\<dots> = take (k + length end_marker) (join separator (rows ! i))"
    using assms(4) by (simp add: truncate_at_first_def)
  finally have r: "map ?g rows ! i = take (k + length end_marker) (join separator (rows ! i))"
    using assms(3) len by simp
  show ?thesis
    using t r len find_sub_Some[OF assms(4)] by simp
qed

text \<open>The theorem at a row that decodes to \<^verbatim>\<open>a<END>b<END>a\<close>.\<close>

theorem tensor2text_keeps_first_end_marker_witness:
  "\<exists>texts. tensor2text toy [[1, 3, 2, 3, 1]] [] None ''<END>'' = Inr texts
     \<and> length texts = 1 \<and> texts ! 0 = ''a<END>''"
  using tensor2text_keeps_first_end_marker
    [where end_marker = "''<END>''" and vocabulary = None and self = toy
       and X = "[[1, 3, 2, 3, 1]]" and rows = "[[''a'', ''<END>'', ''b'', ''<END>'', ''a'']]"
       and i = 0 and separator = "[]" and k = 1]
  by (simp add: literal_END toy_def subscript_def newline_def)

text \<open>
  Claim C10 as first stated has no condition on the end marker. With the end marker
  \<^verbatim>\<open>.\<close> the row below decodes to \<^verbatim>\<open>a.b\<close>, which contains the marker at index 1
  and no newline; the pattern \<^verbatim>\<open>..*\<close> matches the whole string, and the result is
  \<^verbatim>\<open>.\<close> and not the prefix \<^verbatim>\<open>a.\<close>.
\<close>

theorem tensor2text_regex_end_marker_counterexample:
  "tensor2text toy [[1, 11, 2]] [] None ''.'' = Inr [''.'']
     \<and> join [] [''a'', ''.'', ''b''] = ''a.b''
     \<and> find_sub ''.'' ''a.b'' = Some 1
     \<and> newline \<notin> set ''a.b''
     \<and> take (1 + length ''.'') ''a.b'' = ''a.''"
  by (simp add: tensor2text_def toy_def subscript_def re_sub_end_dotstar_def newline_def)

section \<open>Claims about the tokenizer\<close>

text \<open>
  Claim C3, at an input where the code departs from it. The claim: for a string made of
  symbols of the vocabulary, encoding and decoding gives the string back, truncated at its
  first end marker when it has one. The string below is \<^verbatim>\<open>a<END>\<close>, a newline and
  \<^verbatim>\<open>b\<close>, every character of it in the vocabulary. The round trip returns it whole,
  where the claim says \<^verbatim>\<open>a<END>\<close>: the same stop at the newline as for claim C2.
  Without a newline the round trip is the truncation (\<open>round_trip_one_line\<close>).
\<close>

theorem round_trip_stops_at_newline:
  "round_trip toy (chars (''a<END>'' @ [newline] @ ''b'')) = Inr [''a<END>'' @ [newline] @ ''b'']
   \<and> truncate_at_first ''<END>'' (concat (chars (''a<END>'' @ [newline] @ ''b''))) = ''a<END>''"
  by (simp add: round_trip_def text2tensor_def pad_sequence_def chars_def tensor2text_def toy_def
      subscript_def re_sub_end_dotstar_def newline_def truncate_at_first_def)

text \<open>
  Claim C7, as amended: when a string of the batch has a symbol that the input vocabulary
  lacks, \<^verbatim>\<open>text2tensor\<close> fails with \<^verbatim>\<open>KeyError\<close>, a \<^verbatim>\<open>LookupError\<close>; when the
  batch is not empty and every symbol is in the vocabulary, it returns a tensor with one
  row for every string.
\<close>

theorem text2tensor_lookup:
  "((\<exists>s\<in>set strings. \<exists>c\<in>set s. in_vocabulary self c = None)
      \<longrightarrow> text2tensor self strings = Inl KeyError \<and> is_LookupError KeyError)
   \<and> (strings \<noteq> [] \<and> (\<forall>s\<in>set strings. \<forall>c\<in>set s. in_vocabulary self c \<noteq> None)
      \<longrightarrow> (\<exists>X. text2tensor self strings = Inr X \<and> length X = length strings))"
proof (intro conjI impI)
  assume "\<exists>s\<in>set strings. \<exists>c\<in>set s. in_vocabulary self c = None"
  then have "\<not> list_all (list_all (\<lambda>k. in_vocabulary self k \<noteq> None)) strings"
    by (auto simp: list_all_iff)
  then show "text2tensor self strings = Inl KeyError"
    by (simp add: text2tensor_def comprehension_rows_absent)
next
  show "is_LookupError KeyError" by simp
next
  assume a: "strings \<noteq> [] \<and> (\<forall>s\<in>set strings. \<forall>c\<in>set s. in_vocabulary self c \<noteq> None)"
  then have "list_all (list_all (\<lambda>k. in_vocabulary self k \<noteq> None)) strings"
    by (auto simp: list_all_iff)
  then have "text2tensor self strings
      = pad_sequence (map (map (\<lambda>k. the (in_vocabulary self k))) strings)"
    by (simp add: text2tensor_def comprehension_rows_present)
  then show "\<exists>X. text2tensor self strings = Inr X \<and> length X = length strings"
    using a by (simp add: pad_sequence_def Let_def)
qed

text \<open>The theorem at a batch with the unknown symbol \<^verbatim>\<open>z\<close> and at one without.\<close>

theorem text2tensor_lookup_witness:
  "text2tensor toy [chars ''ab'', chars ''z''] = Inl KeyError
   \<and> (\<exists>X. text2tensor toy [chars ''ab'', chars ''a''] = Inr X \<and> length X = 2)"
  using text2tensor_lookup [of "[chars ''ab'', chars ''z'']" toy]
    text2tensor_lookup [of "[chars ''ab'', chars ''a'']" toy]
  by (auto simp: chars_def toy_def newline_def)

text \<open>
  Claim C7 as first stated speaks of every batch. In the empty batch no symbol is absent
  from the vocabulary, and the encoding fails in the padding.
\<close>

theorem text2tensor_empty_batch_counterexample:
  "list_all (list_all (\<lambda>c. in_vocabulary toy c \<noteq> None)) [] \<and> text2tensor toy [] = Inl RuntimeError"
  by (simp add: text2tensor_def pad_sequence_def)

section \<open>Lemmas about the generation facade\<close>

lemma generate_greedy_search_fails:
  "\<exists>e. snd (generate self input_text max_predictions ''greedy_search''
              temperature candidates beam_width) = Inl e"
proof (cases "text2tensor self input_text")
  case (Inl e)
  then show ?thesis by (simp add: generate_def)
next
  case (Inr X)
  then show ?thesis
    by (cases "greedy_search self X max_predictions")
      (auto simp: generate_def generate_return_def)
qed

lemma generate_sample_returns:
  assumes "text2tensor self input_text = Inr X"
    and "0 < t"
    and "sample_loop self X max_predictions t = Inr Y"
    and "length Y = length X"
  shows "snd (generate self input_text max_predictions ''sample'' (Some t) candidates beam_width)
           = tensor2text self (map2 (@) X (map tl Y)) [] None ''<END>''"
  using assms by (simp add: generate_def sample_def generate_return_def cat_columns_def)

lemma first_hypothesis_hd:
  "list_all (\<lambda>hs. hs \<noteq> []) Y \<Longrightarrow> first_hypothesis Y = Inr (map hd Y)"
  unfolding first_hypothesis_def
  by (induction Y) (auto split: list.splits)

lemma generate_beam_search_returns:
  assumes "text2tensor self input_text = Inr X"
    and "beam_search self X max_predictions c b = Inr (Y, log_probabilities)"
    and "list_all (\<lambda>hs. hs \<noteq> []) Y"
    and "length Y = length X"
  shows "snd (generate self input_text max_predictions ''beam_search'' temperature (Some c) (Some b))
           = tensor2text self (map2 (@) X (map (\<lambda>hs. tl (hd hs)) Y)) [] None ''<END>''"
  using assms
  by (simp add: generate_def generate_return_def cat_columns_def first_hypothesis_hd comp_def)

section \<open>Claims about the generation facade\<close>

text \<open>
  Claim C4, at an input where the code departs from it. The claim: for every recognised
  method \<^verbatim>\<open>generate\<close> returns the detokenization of the tokenized input followed by the
  continuation without its start symbol. With the default method \<^verbatim>\<open>greedy_search\<close> the
  name \<^verbatim>\<open>Y\<close> is bound to the pair of sequences and scores, and the slice
  \<^verbatim>\<open>Y[:, 1:]\<close> of the last line raises \<^verbatim>\<open>TypeError\<close>; the branch for
  \<^verbatim>\<open>beam_search\<close> unpacks its pair, and so does the diagnostic block of \<^verbatim>\<open>fit\<close>
  with \<^verbatim>\<open>greedy[0]\<close>. No input makes the greedy branch return
  (\<open>generate_greedy_search_fails\<close>); the other two branches return what the claim says
  (\<open>generate_sample_returns\<close>, \<open>generate_beam_search_returns\<close>).
\<close>

theorem generate_greedy_search_type_error:
  "generate toy [chars ''ab''] 3 ''greedy_search'' (Some 1) (Some 5) (Some 5)
     = ([GreedySearch [[1, 2]] 3], Inl TypeError)"
  by (simp add: generate_def text2tensor_def pad_sequence_def chars_def toy_def subscript_def
      generate_return_def)

text \<open>
  Claim C5, as amended: for every method name outside the three recognised ones,
  \<^verbatim>\<open>generate\<close> fails without having called a decoding strategy; the exception is
  \<^verbatim>\<open>ValueError\<close> when the input text can be encoded, and the exception of
  \<^verbatim>\<open>text2tensor\<close> when it cannot, since the input is encoded before the method name is
  looked at.
\<close>

theorem generate_unknown_method:
  assumes "method \<noteq> ''greedy_search''" and "method \<noteq> ''sample''"
    and "method \<noteq> ''beam_search''"
  shows "generate self input_text max_predictions method temperature candidates beam_width
           = ([], case text2tensor self input_text of
                    Inl e \<Rightarrow> Inl e
                  | Inr X \<Rightarrow> Inl ValueError)"
  using assms by (simp add: generate_def split: sum.splits)

text \<open>The theorem at the method name \<^verbatim>\<open>top_k\<close> and the input \<^verbatim>\<open>ab\<close>.\<close>

theorem generate_unknown_method_witness:
  "generate toy [chars ''ab''] 10 ''top_k'' (Some 1) (Some 5) (Some 5) = ([], Inl ValueError)"
  using generate_unknown_method [of "''top_k''" toy "[chars ''ab'']" 10 "Some 1" "Some 5" "Some 5"]
  by (simp add: text2tensor_def pad_sequence_def chars_def toy_def subscript_def)

text \<open>
  Claim C5 as first stated speaks of every input. With the unknown method \<^verbatim>\<open>top_k\<close>
  and the input \<^verbatim>\<open>az\<close>, whose \<^verbatim>\<open>z\<close> is not in the vocabulary, the exception is
  \<^verbatim>\<open>KeyError\<close>, not \<^verbatim>\<open>ValueError\<close>.
\<close>

theorem generate_unknown_method_counterexample:
  "generate toy [chars ''az''] 10 ''top_k'' (Some 1) (Some 5) (Some 5) = ([], Inl KeyError)"
  by (simp add: generate_def text2tensor_def chars_def toy_def subscript_def newline_def)

text \<open>
  Claim C6, as amended: with the method \<^verbatim>\<open>sample\<close> and an input that can be encoded, a
  temperature of \<^verbatim>\<open>None\<close> fails with \<^verbatim>\<open>AssertionError\<close>, and a temperature that is a
  number and not positive fails with \<^verbatim>\<open>ValueError\<close>, the \<^verbatim>\<open>InvalidArgument\<close> of the
  specification; in both cases no sampling loop has run. A positive temperature is
  accepted: the loop runs once, with that temperature, and its result or exception
  decides that of \<^verbatim>\<open>generate\<close>.
\<close>

theorem generate_sample_temperature:
  assumes "text2tensor self input_text = Inr X"
  shows "generate self input_text max_predictions ''sample'' None candidates beam_width
           = ([], Inl AssertionError)
       \<and> (t \<le> 0 \<longrightarrow>
            generate self input_text max_predictions ''sample'' (Some t) candidates beam_width
              = ([], Inl ValueError))
       \<and> (0 < t \<longrightarrow>
            generate self input_text max_predictions ''sample'' (Some t) candidates beam_width
              = ([Sample X max_predictions t],
                 case sample_loop self X max_predictions t of
                   Inl e \<Rightarrow> Inl e
                 | Inr Y \<Rightarrow> generate_return self X (Tensor Y)))"
  using assms by (cases "sample_loop self X max_predictions t") (simp_all add: generate_def sample_def)

text \<open>
  The theorem at the input \<^verbatim>\<open>ab\<close>, for \<^verbatim>\<open>None\<close> and for the temperatures -1 and 1/2.
\<close>

theorem generate_sample_temperature_witness:
  "generate toy [chars ''ab''] 2 ''sample'' None (Some 5) (Some 5) = ([], Inl AssertionError)
   \<and> generate toy [chars ''ab''] 2 ''sample'' (Some (- 1)) (Some 5) (Some 5)
       = ([], Inl ValueError)
   \<and> generate toy [chars ''ab''] 2 ''sample'' (Some (1 / 2)) (Some 5) (Some 5)
       = ([Sample [[1, 2]] 2 (1 / 2)], Inr [''abb<END>''])"
proof -
  have enc: "text2tensor toy [chars ''ab''] = Inr [[1, 2]]"
    by (simp add: text2tensor_def pad_sequence_def chars_def toy_def subscript_def)
  have loop: "(case sample_loop toy [[1, 2]] 2 (1 / 2) of
                 Inl e \<Rightarrow> Inl e
               | Inr Y \<Rightarrow> generate_return toy [[1, 2]] (Tensor Y)) = Inr [''abb<END>'']"
    by (simp add: toy_def subscript_def generate_return_def cat_columns_def tensor2text_def
        re_sub_end_dotstar_def newline_def)
  show ?thesis
    using generate_sample_temperature [OF enc, of 2 "Some 5" "Some 5" "- 1"]
      generate_sample_temperature [OF enc, of 2 "Some 5" "Some 5" "1 / 2"] loop
    by simp
qed

text \<open>
  Claim C6 as first stated has every temperature that is not a positive real number fail
  with \<^verbatim>\<open>InvalidArgument\<close>, in every call. For \<^verbatim>\<open>None\<close> the assertion of
  \<^verbatim>\<open>generate\<close> fails first, and the exception is \<^verbatim>\<open>AssertionError\<close>; and for the
  input \<^verbatim>\<open>az\<close>, which cannot be encoded, the exception is \<^verbatim>\<open>KeyError\<close> also at the
  temperature -1.
\<close>

theorem generate_none_temperature_counterexample:
  "generate toy [chars ''ab''] 2 ''sample'' None (Some 5) (Some 5) = ([], Inl AssertionError)
   \<and> AssertionError \<noteq> ValueError
   \<and> generate toy [chars ''az''] 2 ''sample'' (Some (- 1)) (Some 5) (Some 5) = ([], Inl KeyError)"
  by (simp add: generate_def text2tensor_def pad_sequence_def chars_def toy_def subscript_def
      newline_def)

section \<open>Lemmas about the training loop\<close>

lemma zip_shift_nth:
  assumes "length out = length r"
  shows "filter (\<lambda>(l, t). t \<noteq> ig) (zip (butlast out) (tl r))
           = map (\<lambda>t. (out ! t, r ! Suc t)) (filter (\<lambda>t. r ! Suc t \<noteq> ig) [0..<length r - 1])"
proof -
  have "zip (butlast out) (tl r) = map (\<lambda>t. (out ! t, r ! Suc t)) [0..<length r - 1]"
    using assms by (intro nth_equalityI) (auto simp: nth_butlast nth_tl)
  then show ?thesis
    by (simp add: filter_map comp_def)
qed

lemma filter_concat_zip_shift:
  assumes "list_all2 (\<lambda>out r. length out = length r) outs rs"
  shows "filter (\<lambda>(l, t). t \<noteq> ig) (concat (map2 zip (map butlast outs) (map tl rs)))
           = concat (map2 (\<lambda>out r. map (\<lambda>t. (out ! t, r ! Suc t))
                                    (filter (\<lambda>t. r ! Suc t \<noteq> ig) [0..<length r - 1])) outs rs)"
  using assms
proof (induction rule: list_all2_induct)
  case Nil
  then show ?case by simp
next
  case (Cons out outs r rs)
  then show ?case by (simp add: zip_shift_nth)
qed

lemma same_lengths_list_all2:
  "map length outs = map length rs \<Longrightarrow> list_all2 (\<lambda>out r. length out = length r) outs rs"
proof (induction outs arbitrary: rs)
  case Nil
  then show ?case by simp
next
  case (Cons out outs)
  then show ?case by (cases rs) auto
qed

lemma batch_loss_pairs:
  assumes "forward T p x y = Inr out" and "map length out = map length y"
  shows "batch_loss T p x y
           = nll_mean T (concat (map2 (\<lambda>ps r. map (\<lambda>t. (ps ! t, r ! Suc t))
                                   (filter (\<lambda>t. r ! Suc t \<noteq> 0) [0..<length r - 1])) out y))"
proof -
  have shape: "map length (map butlast out) = map length (map tl y)"
  proof -
    have "map length (map butlast out) = map (\<lambda>n. n - 1) (map length out)"
      by (simp add: comp_def)
    also have "\<dots> = map (\<lambda>n. n - 1) (map length y)"
      by (simp only: assms(2))
    also have "\<dots> = map length (map tl y)"
      by (simp add: comp_def)
    finally show ?thesis .
  qed
  have "list_all2 (\<lambda>out r. length out = length r) out y"
    using assms(2) by (rule same_lengths_list_all2)
  then have pairs: "filter (\<lambda>(l, t). t \<noteq> 0) (concat (map2 zip (map butlast out) (map tl y)))
      = concat (map2 (\<lambda>ps r. map (\<lambda>t. (ps ! t, r ! Suc t))
                  (filter (\<lambda>t. r ! Suc t \<noteq> 0) [0..<length r - 1])) out y)"
    by (rule filter_concat_zip_shift)
  have "batch_loss T p x y = CrossEntropyLoss (nll_mean T) 0 (map butlast out) (map tl y)"
    using assms(1) by (simp add: batch_loss_def)
  also have "\<dots> = nll_mean T (filter (\<lambda>(l, t). t \<noteq> 0)
                       (concat (map2 zip (map butlast out) (map tl y))))"
    using shape by (simp add: CrossEntropyLoss_def)
  finally show ?thesis by (simp only: pairs)
qed

lemma run_epochs_failure:
  assumes "run_epochs T n ds v s es1 = (Inr s', out1)"
    and "run_epoch T n ds v s' e = (Inl err, out)"
  shows "run_epochs T n ds v s (es1 @ e # es2) = (Inl err, out1 @ out)"
  using assms
proof (induction es1 arbitrary: s out1)
  case Nil
  then show ?case by simp
next
  case (Cons a es1)
  obtain r o1 where a: "run_epoch T n ds v s a = (r, o1)" by (cases "run_epoch T n ds v s a")
  show ?case
  proof (cases r)
    case (Inl x)
    then show ?thesis using Cons.prems(1) a by simp
  next
    case (Inr s1)
    obtain r2 o2 where b: "run_epochs T n ds v s1 es1 = (r2, o2)"
      by (cases "run_epochs T n ds v s1 es1")
    from Cons.prems(1) a Inr b have r2: "r2 = Inr s'" and o: "out1 = o1 @ o2" by auto
    from Cons.IH[OF b[unfolded r2] Cons.prems(2)] a Inr o show ?thesis by simp
  qed
qed

lemma run_epoch_empty_dataset:
  "run_epoch T n [] v s e = (Inl ZeroDivisionError, [])"
  by (simp add: run_epoch_def data_loader_iter_def)

section \<open>Claims about the training loop\<close>

text \<open>
  Claim C1: for every mini-batch of \<^verbatim>\<open>fit\<close> for which \<^verbatim>\<open>forward\<close> returns one score
  vector for every position of every target row, the loss is computed from exactly the
  pairs of the scores at position \<open>t\<close> and the target at position \<open>t + 1\<close>, for the
  positions \<open>t\<close> from 0 to the length of the row minus 2 whose target at \<open>t + 1\<close> is
  not the padding index 0. So the scores of the last position and the target of the first
  position are in no pair, and a position whose target is 0 contributes nothing. The
  reported loss and the optimizer step both depend on the batch through that loss only.
\<close>

theorem train_batch_loss_positions:
  assumes "forward T (snd s) x y = Inr out" and "map length out = map length y"
  shows "train_batch T s (x, y) =
     (case nll_mean T (concat (map2 (\<lambda>ps r. map (\<lambda>t. (ps ! t, r ! Suc t))
                                  (filter (\<lambda>t. r ! Suc t \<noteq> 0) [0..<length r - 1])) out y)) of
        Inl e \<Rightarrow> Inl e
      | Inr loss \<Rightarrow>
          (case backward_step T (fst s) (snd s) loss of
             Inl e \<Rightarrow> Inl e
           | Inr s' \<Rightarrow> Inr (s', item T loss)))"
  using batch_loss_pairs[OF assms] by (simp add: train_batch_def)

text \<open>
  The theorem at a batch of two target rows; the loss tensor of the example trainer is the
  list of pairs itself, and the score vector of position \<open>t\<close> is \<open>t\<close>.
\<close>

theorem train_batch_loss_positions_witness:
  "train_batch toy_trainer ((), 0) ([[1, 2], [2, 1]], [[2, 5, 0, 0], [4, 0, 3, 0]])
     = Inr (((), 1), 2)
   \<and> batch_loss toy_trainer 0 [[1, 2], [2, 1]] [[2, 5, 0, 0], [4, 0, 3, 0]] = Inr [(0, 5), (1, 3)]"
  using train_batch_loss_positions
    [of toy_trainer "((), 0)" "[[1, 2], [2, 1]]" "[[2, 5, 0, 0], [4, 0, 3, 0]]" "[[0, 1, 2, 3], [0, 1, 2, 3]]"]
  by (simp add: toy_trainer_def batch_loss_def CrossEntropyLoss_def)

text \<open>
  The example of the specification, the target row \<^verbatim>\<open>[2, 5, 0, 0]\<close>: the one pair that
  counts is the scores of position 0 with the target 5 of position 1.
\<close>

lemma batch_loss_padding_example:
  "batch_loss toy_trainer 0 [[2, 5, 0, 0]] [[2, 5, 0, 0]] = Inr [(0, 5)]"
  by (simp add: toy_trainer_def batch_loss_def CrossEntropyLoss_def)

text \<open>
  Claim C8: the files after \<^verbatim>\<open>fit\<close> are the files before it, but for the one case that
  \<^verbatim>\<open>fit\<close> returns normally and \<^verbatim>\<open>save_path\<close> is not \<^verbatim>\<open>None\<close>, where the path holds
  the parameters after the last epoch. When an epoch fails after the epochs before it have
  succeeded, \<^verbatim>\<open>fit\<close> ends with that exception and the files are as before.
\<close>

theorem fit_saves_after_training:
  "snd (snd (fit T p X Y epochs batch_size lr verbose save_path files))
     = (case fst (fit T p X Y epochs batch_size lr verbose save_path files) of
          Inl err \<Rightarrow> files
        | Inr p' \<Rightarrow> (case save_path of None \<Rightarrow> files | Some path \<Rightarrow> files(path \<mapsto> p')))
   \<and> (Adam T p lr = Inr opt \<and> TensorDataset X Y = Inr dataset
        \<and> RandomSampler (length dataset) = None \<and> 0 < batch_size
        \<and> run_epochs T (nat batch_size) dataset verbose (opt, p) earlier = (Inr s', out_earlier)
        \<and> run_epoch T (nat batch_size) dataset verbose s' e = (Inl err, out)
        \<and> [1..epochs] = earlier @ e # later
      \<longrightarrow> fit T p X Y epochs batch_size lr verbose save_path files
            = (Inl err, out_earlier @ out, files))"
proof (intro conjI impI)
  show "snd (snd (fit T p X Y epochs batch_size lr verbose save_path files))
     = (case fst (fit T p X Y epochs batch_size lr verbose save_path files) of
          Inl err \<Rightarrow> files
        | Inr p' \<Rightarrow> (case save_path of None \<Rightarrow> files | Some path \<Rightarrow> files(path \<mapsto> p')))"
    by (auto simp: fit_def split: sum.splits option.splits prod.splits)
next
  assume a: "Adam T p lr = Inr opt \<and> TensorDataset X Y = Inr dataset
        \<and> RandomSampler (length dataset) = None \<and> 0 < batch_size
        \<and> run_epochs T (nat batch_size) dataset verbose (opt, p) earlier = (Inr s', out_earlier)
        \<and> run_epoch T (nat batch_size) dataset verbose s' e = (Inl err, out)
        \<and> [1..epochs] = earlier @ e # later"
  then have "run_epochs T (nat batch_size) dataset verbose (opt, p) [1..epochs]
               = (Inl err, out_earlier @ out)"
    using run_epochs_failure[of T "nat batch_size" dataset verbose "(opt, p)" earlier s' out_earlier e err out later]
    by simp
  then show "fit T p X Y epochs batch_size lr verbose save_path files
            = (Inl err, out_earlier @ out, files)"
    using a by (simp add: fit_def)
qed

text \<open>
  The theorem at a run whose second epoch fails in the optimizer, and the same run with
  one epoch only, which saves.
\<close>

theorem fit_saves_after_training_witness:
  "fit toy_trainer 0 [[1, 2], [2, 1]] [[4, 1, 3], [4, 2, 0]] 2 1 (1 / 10000) 1 (Some ''m.pt'') Map.empty
     = (Inl RuntimeError, [EpochLoss 1 (3 / 2)], Map.empty)
   \<and> fit toy_trainer 0 [[1, 2], [2, 1]] [[4, 1, 3], [4, 2, 0]] 1 1 (1 / 10000) 1
         (Some ''m.pt'') Map.empty
     = (Inr 2, [EpochLoss 1 (3 / 2)], [''m.pt'' \<mapsto> 2])"
proof -
  let ?X = "[[1, 2], [2, 1]] :: int list list"
  let ?Y = "[[4, 1, 3], [4, 2, 0]] :: int list list"
  let ?ds = "[([1, 2], [4, 1, 3]), ([2, 1], [4, 2, 0])] :: (int list \<times> int list) list"
  have a: "Adam toy_trainer 0 (1 / 10000) = Inr ()"
    by (simp add: toy_trainer_def)
  have d: "TensorDataset ?X ?Y = Inr ?ds"
    by (simp add: TensorDataset_def)
  have b: "(0::int) < 1" by simp
  have c: "RandomSampler (length ?ds) = None"
    by (simp add: RandomSampler_def)
  have r1: "run_epochs toy_trainer (nat 1) ?ds 1 ((), 0) [1] = (Inr ((), 2), [EpochLoss 1 (3 / 2)])"
    by (simp add: run_epoch_def data_loader_iter_def train_batch_def batch_loss_def
        CrossEntropyLoss_def toy_trainer_def)
  have r2: "run_epoch toy_trainer (nat 1) ?ds 1 ((), 2) 2 = (Inl RuntimeError, [])"
    by (simp add: run_epoch_def data_loader_iter_def train_batch_def batch_loss_def
        CrossEntropyLoss_def toy_trainer_def)
  have es: "[1..2] = [1] @ 2 # []" by (simp add: upto_rec1)
  have "fit toy_trainer 0 ?X ?Y 2 1 (1 / 10000) 1 (Some ''m.pt'') Map.empty
          = (Inl RuntimeError, [EpochLoss 1 (3 / 2)] @ [], Map.empty)"
    using fit_saves_after_training
      [where T = toy_trainer and p = 0 and X = ?X and Y = ?Y and epochs = 2 and batch_size = 1
         and lr = "1 / 10000" and verbose = 1 and save_path = "Some ''m.pt''"
         and files = Map.empty and opt = "()" and dataset = ?ds and earlier = "[1]"
         and s' = "((), 2)" and out_earlier = "[EpochLoss 1 (3 / 2)]" and e = 2
         and err = RuntimeError and out = "[]" and later = "[]"]
      a d c b r1 r2 es
    by blast
  moreover have "fit toy_trainer 0 ?X ?Y 1 1 (1 / 10000) 1 (Some ''m.pt'') Map.empty
          = (Inr 2, [EpochLoss 1 (3 / 2)], [''m.pt'' \<mapsto> 2])"
    using a d c r1 by (simp add: fit_def)
  ultimately show ?thesis by simp
qed

text \<open>
  Claim C9, as amended: every call of \<^verbatim>\<open>fit\<close> with an empty dataset fails, whatever the
  number of epochs, with nothing printed and nothing saved. When the optimizer is built
  the exception is the \<^verbatim>\<open>ValueError\<close> of the loader's sampler, raised at line 32 before
  the loop over the epochs: no epoch starts and the division of the loss report is not
  reached.
\<close>

theorem fit_empty_dataset:
  "(\<exists>err. fit T p [] [] epochs batch_size lr verbose save_path files = (Inl err, [], files))
   \<and> (Adam T p lr = Inr opt
        \<longrightarrow> fit T p [] [] epochs batch_size lr verbose save_path files
              = (Inl ValueError, [], files))"
  by (cases "Adam T p lr") (auto simp: fit_def TensorDataset_def RandomSampler_def)

text \<open>The theorem at three epochs and at none.\<close>

theorem fit_empty_dataset_witness:
  "fit toy_trainer 0 [] [] 3 100 (1 / 10000) 1 (Some ''m.pt'') Map.empty
     = (Inl ValueError, [], Map.empty)
   \<and> fit toy_trainer 0 [] [] 0 100 (1 / 10000) 1 (Some ''m.pt'') Map.empty
     = (Inl ValueError, [], Map.empty)"
  using fit_empty_dataset
    [where epochs = 3 and T = toy_trainer and p = 0 and batch_size = 100 and lr = "1 / 10000"
       and verbose = 1 and save_path = "Some ''m.pt''" and files = Map.empty and opt = "()"]
    fit_empty_dataset
    [where epochs = 0 and T = toy_trainer and p = 0 and batch_size = 100 and lr = "1 / 10000"
       and verbose = 1 and save_path = "Some ''m.pt''" and files = Map.empty and opt = "()"]
  by (simp add: toy_trainer_def)

text \<open>
  Claim C9 as first stated has the first epoch raise the error, by the division of its
  loss report. The first epoch on an empty dataset would raise \<^verbatim>\<open>ZeroDivisionError\<close>,
  but \<^verbatim>\<open>fit\<close> does not get there: its exception is \<^verbatim>\<open>ValueError\<close>, and it is the same
  with \<^verbatim>\<open>epochs = 0\<close>, where there is no first epoch.
\<close>

theorem fit_empty_dataset_before_first_epoch_counterexample:
  "fit toy_trainer 0 [] [] 3 100 (1 / 10000) 1 None Map.empty = (Inl ValueError, [], Map.empty)
   \<and> fit toy_trainer 0 [] [] 0 100 (1 / 10000) 1 None Map.empty = (Inl ValueError, [], Map.empty)
   \<and> run_epoch toy_trainer 100 [] 1 ((), 0) 1 = (Inl ZeroDivisionError, [])
   \<and> ValueError \<noteq> ZeroDivisionError"
  by (simp add: fit_def TensorDataset_def RandomSampler_def toy_trainer_def
      run_epoch_empty_dataset)

end
